theory Spec2Isabelle
  imports Main
begin

section \<open>The merge plugin: data model\<close>

text \<open>
  Go strings are byte sequences; they are modelled as \<^typ>\<open>string\<close> (a list of 8-bit
  characters). A Go \<^verbatim>\<open>error\<close> is an opaque value carrying a message, and
  \<^verbatim>\<open>nil\<close> is \<^term>\<open>None\<close> of \<^typ>\<open>'a option\<close>.
\<close>

datatype error = Error string

text \<open>
  Modelled from the spec: the types \<^verbatim>\<open>github.Label\<close>, \<^verbatim>\<open>github.User\<close>,
  \<^verbatim>\<open>github.Repo\<close> and \<^verbatim>\<open>github.GenericCommentEvent\<close> of package
  \<^verbatim>\<open>prow/github\<close> are declared outside \<^verbatim>\<open>merge.go\<close>; only the fields that
  \<^verbatim>\<open>merge.go\<close> reads are kept.
\<close>

record Label =
  Name :: string

record User =
  Login :: string

record Repo =
  Owner :: User
  RepoName :: string

type_synonym GenericCommentEventAction = string

record GenericCommentEvent =
  IsPR :: bool
  Action :: GenericCommentEventAction
  Body :: string
  HTMLURL :: string
  Number :: int
  EventRepo :: Repo
  EventUser :: User
  IssueAuthor :: User
  IssueState :: string

text \<open>
  Modelled from the spec: the constant \<^verbatim>\<open>github.GenericCommentActionCreated\<close>, the
  action "comment created" of the action enum (created/edited/deleted).
\<close>

definition GenericCommentActionCreated :: GenericCommentEventAction where
  "GenericCommentActionCreated = ''created''"

text \<open>
  Modelled from the spec: \<^verbatim>\<open>plugins.Merge\<close> and \<^verbatim>\<open>plugins.Configuration\<close>
  are declared in package \<^verbatim>\<open>prow/plugins\<close>: an ordered list of entries, each naming the
  org or "org/repo" strings it applies to, and the owners section read by
  \<^verbatim>\<open>skipCollaborators\<close>.
\<close>

record Merge =
  Repos :: "string list"

record Owners =
  SkipCollaborators :: "string list"

record Configuration =
  ConfigMerge :: "Merge list"
  ConfigOwners :: Owners

text \<open>\<^verbatim>\<open>reviewCtx\<close> (merge.go, lines 89-94).\<close>

record reviewCtx =
  author :: string
  issueAuthor :: string
  body :: string
  htmlURL :: string
  repo :: Repo
  number :: int

definition pluginName :: string where
  "pluginName = ''merge''"

definition mergeLabel :: string where
  "mergeLabel = ''ok-to-merge''"

section \<open>Regular expressions of the plugin\<close>

text \<open>
  The two patterns are \<^verbatim>\<open>(?mi)^/merge\s*$\<close> and \<^verbatim>\<open>(?mi)^/merge cancel\s*$\<close>.
  They use four constructs of Go's \<^verbatim>\<open>regexp\<close> syntax, which are the instructions
  of the pattern type below:
  \<^item> \<^verbatim>\<open>^\<close> under flag \<^verbatim>\<open>m\<close>: at the beginning of the text or right after a line feed;
  \<^item> \<^verbatim>\<open>$\<close> under flag \<^verbatim>\<open>m\<close>: at the end of the text or right before a line feed;
  \<^item> a literal character under flag \<^verbatim>\<open>i\<close>: the character in either case (none of
    the letters of the two patterns has a case variant outside ASCII);
  \<^item> \<^verbatim>\<open>\s*\<close>: any number of characters of the class \<^verbatim>\<open>[\t\n\f\r ]\<close>.
\<close>

datatype inst = BeginLine | EndLine | FoldChar char | StarSpace

type_synonym Regexp = "inst list"

definition newline :: char where
  "newline = CHR 0x0A"

definition isSpace :: "char \<Rightarrow> bool" where
  "isSpace c = (c = CHR 0x09 \<or> c = CHR 0x0A \<or> c = CHR 0x0C \<or> c = CHR 0x0D \<or> c = CHR 0x20)"

text \<open>Case folding of one byte: an ASCII capital goes to its small letter.\<close>

definition toLower :: "char \<Rightarrow> char" where
  "toLower c =
     (case map_of (zip ''ABCDEFGHIJKLMNOPQRSTUVWXYZ'' ''abcdefghijklmnopqrstuvwxyz'') c of
        Some l \<Rightarrow> l
      | None \<Rightarrow> c)"

text \<open>
  \<open>matchHere r prev s\<close>: pattern \<open>r\<close> matches a prefix of \<open>s\<close>, where \<open>prev\<close> is
  the character before \<open>s\<close> in the text (\<open>None\<close> at the beginning of the text).
\<close>

fun matchHere :: "Regexp \<Rightarrow> char option \<Rightarrow> string \<Rightarrow> bool" where
  "matchHere [] prev s = True"
| "matchHere (BeginLine # r) prev s =
     ((prev = None \<or> prev = Some newline) \<and> matchHere r prev s)"
| "matchHere (EndLine # r) prev s =
     ((case s of [] \<Rightarrow> True | x # xs \<Rightarrow> x = newline) \<and> matchHere r prev s)"
| "matchHere (FoldChar c # r) prev s =
     (case s of [] \<Rightarrow> False | x # xs \<Rightarrow> toLower x = toLower c \<and> matchHere r (Some x) xs)"
| "matchHere (StarSpace # r) prev s =
     (matchHere r prev s \<or>
      (case s of [] \<Rightarrow> False | x # xs \<Rightarrow> isSpace x \<and> matchHere (StarSpace # r) (Some x) xs))"

text \<open>\<open>matchFrom r prev s\<close>: the pattern matches at some position of \<open>s\<close>.\<close>

fun matchFrom :: "Regexp \<Rightarrow> char option \<Rightarrow> string \<Rightarrow> bool" where
  "matchFrom r prev [] = matchHere r prev []"
| "matchFrom r prev (x # xs) = (matchHere r prev (x # xs) \<or> matchFrom r (Some x) xs)"

text \<open>\<^verbatim>\<open>(*Regexp).MatchString\<close>: the text contains a match of the pattern.\<close>

definition MatchString :: "Regexp \<Rightarrow> string \<Rightarrow> bool" where
  "MatchString r s = matchFrom r None s"

definition mergeRe :: Regexp where
  "mergeRe = BeginLine # map FoldChar ''/merge'' @ [StarSpace, EndLine]"

definition mergeCancelRe :: Regexp where
  "mergeCancelRe = BeginLine # map FoldChar ''/merge cancel'' @ [StarSpace, EndLine]"

section \<open>Repository scope of the configuration\<close>

text \<open>\<^verbatim>\<open>strInSlice\<close> (merge.go, lines 69-76): the loop returns at the first equal element.\<close>

fun strInSlice :: "string \<Rightarrow> string list \<Rightarrow> bool" where
  "strInSlice str [] = False"
| "strInSlice str (elem # slice) = (if elem = str then True else strInSlice str slice)"

text \<open>\<^verbatim>\<open>fmt.Sprintf("%s/%s", org, repo)\<close>.\<close>

definition fullNameOf :: "string \<Rightarrow> string \<Rightarrow> string" where
  "fullNameOf org rp = org @ ''/'' @ rp"

text \<open>
  The loop of \<^verbatim>\<open>optionsForRepo\<close> (merge.go, lines 61-66) over the remaining entries;
  \<open>None\<close> when it falls through.
\<close>

fun optionsLoop :: "string \<Rightarrow> string \<Rightarrow> Merge list \<Rightarrow> Merge option" where
  "optionsLoop org fullName [] = None"
| "optionsLoop org fullName (m # ms) =
     (if \<not> strInSlice org (Repos m) \<and> \<not> strInSlice fullName (Repos m)
      then optionsLoop org fullName ms
      else Some m)"

text \<open>
  \<^verbatim>\<open>optionsForRepo\<close> (merge.go, lines 58-68). The Go function returns a pointer, to the
  matching entry or to a fresh \<^verbatim>\<open>plugins.Merge{}\<close>; the model returns the value pointed to.
\<close>

definition optionsForRepo :: "Configuration \<Rightarrow> string \<Rightarrow> string \<Rightarrow> Merge" where
  "optionsForRepo config org rp =
     (let fullName = fullNameOf org rp in
      case optionsLoop org fullName (ConfigMerge config) of
        Some m \<Rightarrow> m
      | None \<Rightarrow> \<lparr>Repos = []\<rparr>)"

text \<open>\<^verbatim>\<open>skipCollaborators\<close> (merge.go, lines 167-175).\<close>

fun skipLoop :: "string \<Rightarrow> string \<Rightarrow> string list \<Rightarrow> bool" where
  "skipLoop org full [] = False"
| "skipLoop org full (elem # rest) =
     (if elem = org \<or> elem = full then True else skipLoop org full rest)"

definition skipCollaborators :: "Configuration \<Rightarrow> string \<Rightarrow> string \<Rightarrow> bool" where
  "skipCollaborators config org rp =
     skipLoop org (fullNameOf org rp) (SkipCollaborators (ConfigOwners config))"

section \<open>The GitHub client and the observable effects\<close>

text \<open>
  \<^verbatim>\<open>githubClient\<close> (merge.go, lines 78-87) is an interface: the handler works with any
  implementation. An implementation is a record of operations over a client state \<open>'c\<close>
  (the remote repository as the client sees it); each operation returns its Go results
  and the next client state. Of the eight methods only the three that
  \<^verbatim>\<open>merge.go\<close> calls are kept. \<^verbatim>\<open>GetIssueLabels\<close> returns the Go pair
  \<^verbatim>\<open>([]github.Label, error)\<close> as it is: the handler reads the slice also when the error
  is not nil.
\<close>

record 'c githubClient =
  AddLabel :: "string \<Rightarrow> string \<Rightarrow> int \<Rightarrow> string \<Rightarrow> 'c \<Rightarrow> error option \<times> 'c"
  RemoveLabel :: "string \<Rightarrow> string \<Rightarrow> int \<Rightarrow> string \<Rightarrow> 'c \<Rightarrow> error option \<times> 'c"
  GetIssueLabels :: "string \<Rightarrow> string \<Rightarrow> int \<Rightarrow> 'c \<Rightarrow> (Label list \<times> error option) \<times> 'c"

text \<open>One call on the client, with its arguments.\<close>

datatype call =
    CallGetIssueLabels string string int
  | CallAddLabel string string int string
  | CallRemoveLabel string string int string

text \<open>One entry of the logger: \<^verbatim>\<open>WithError(err).Errorf\<close> or \<^verbatim>\<open>Info\<close>.\<close>

datatype logEntry =
    LogErrorf error string string string int
  | LogInfo string

text \<open>
  What an invocation can change: the client state, the sequence of calls issued on the
  client so far, and the log.
\<close>

record 'c world =
  remote :: 'c
  calls :: "call list"
  logged :: "logEntry list"

definition doGetIssueLabels ::
  "'c githubClient \<Rightarrow> string \<Rightarrow> string \<Rightarrow> int \<Rightarrow> 'c world \<Rightarrow> (Label list \<times> error option) \<times> 'c world" where
  "doGetIssueLabels gc org rp n w =
     (case GetIssueLabels gc org rp n (remote w) of
        (res, c) \<Rightarrow> (res, w\<lparr>remote := c, calls := calls w @ [CallGetIssueLabels org rp n]\<rparr>))"

definition doAddLabel ::
  "'c githubClient \<Rightarrow> string \<Rightarrow> string \<Rightarrow> int \<Rightarrow> string \<Rightarrow> 'c world \<Rightarrow> error option \<times> 'c world" where
  "doAddLabel gc org rp n l w =
     (case AddLabel gc org rp n l (remote w) of
        (res, c) \<Rightarrow> (res, w\<lparr>remote := c, calls := calls w @ [CallAddLabel org rp n l]\<rparr>))"

definition doRemoveLabel ::
  "'c githubClient \<Rightarrow> string \<Rightarrow> string \<Rightarrow> int \<Rightarrow> string \<Rightarrow> 'c world \<Rightarrow> error option \<times> 'c world" where
  "doRemoveLabel gc org rp n l w =
     (case RemoveLabel gc org rp n l (remote w) of
        (res, c) \<Rightarrow> (res, w\<lparr>remote := c, calls := calls w @ [CallRemoveLabel org rp n l]\<rparr>))"

definition logIt :: "logEntry \<Rightarrow> 'c world \<Rightarrow> 'c world" where
  "logIt e w = w\<lparr>logged := logged w @ [e]\<rparr>"

text \<open>
  Modelled from the spec: \<^verbatim>\<open>github.HasLabel\<close> is a function of package
  \<^verbatim>\<open>prow/github\<close>, outside \<^verbatim>\<open>merge.go\<close>. The spec: "Compute has = label set
  contains "ok-to-merge"".
\<close>

fun HasLabel :: "string \<Rightarrow> Label list \<Rightarrow> bool" where
  "HasLabel label [] = False"
| "HasLabel label (l # issueLabels) = (if Name l = label then True else HasLabel label issueLabels)"

section \<open>The handler\<close>

text \<open>
  \<^verbatim>\<open>handle\<close> (merge.go, lines 129-165). The owners client is not used by the function
  and is left out; the logger is the \<open>logged\<close> field of the world. The result is the
  returned Go \<^verbatim>\<open>error\<close> (\<open>None\<close> for \<^verbatim>\<open>nil\<close>) and the world after the call.
\<close>

definition handle ::
  "bool \<Rightarrow> Configuration \<Rightarrow> reviewCtx \<Rightarrow> 'c githubClient \<Rightarrow> 'c world \<Rightarrow> error option \<times> 'c world" where
  "handle wantMerge config rc gc w =
     (let org = Login (Owner (repo rc));
          repoName = RepoName (repo rc) in
      case doGetIssueLabels gc org repoName (number rc) w of
        ((labels, err), w1) \<Rightarrow>
          let w2 = (case err of
                      Some e \<Rightarrow>
                        logIt (LogErrorf e ''Failed to get the labels on %s/%s#%d.'' org repoName (number rc)) w1
                    | None \<Rightarrow> w1);
              has = HasLabel mergeLabel labels
          in if has \<and> \<not> wantMerge then
               doRemoveLabel gc org repoName (number rc) mergeLabel (logIt (LogInfo ''Removing merge label.'') w2)
             else if \<not> has \<and> wantMerge then
               (case doAddLabel gc org repoName (number rc) mergeLabel (logIt (LogInfo ''Adding merge label.'') w2) of
                  (Some e, w3) \<Rightarrow> (Some e, w3)
                | (None, w3) \<Rightarrow> (None, w3))
             else (None, w2))"

text \<open>
  \<^verbatim>\<open>handleGenericComment\<close> (merge.go, lines 100-127). \<open>newReviewCtx\<close> is the
  composite literal of lines 101-108. The three-way branch of lines 117-124 sets
  \<^verbatim>\<open>wantMerge\<close> or returns \<^verbatim>\<open>nil\<close>; the merge pattern is tested first.
\<close>

definition newReviewCtx :: "GenericCommentEvent \<Rightarrow> reviewCtx" where
  "newReviewCtx e =
     \<lparr>author = Login (EventUser e),
      issueAuthor = Login (IssueAuthor e),
      body = Body e,
      htmlURL = HTMLURL e,
      repo = EventRepo e,
      number = Number e\<rparr>"

definition handleGenericComment ::
  "'c githubClient \<Rightarrow> Configuration \<Rightarrow> GenericCommentEvent \<Rightarrow> 'c world \<Rightarrow> error option \<times> 'c world" where
  "handleGenericComment gc config e w =
     (let rc = newReviewCtx e in
      if \<not> IsPR e \<or> IssueState e \<noteq> ''open'' \<or> Action e \<noteq> GenericCommentActionCreated then (None, w)
      else if MatchString mergeRe (body rc) then handle True config rc gc w
      else if MatchString mergeCancelRe (body rc) then handle False config rc gc w
      else (None, w))"

section \<open>Vocabulary of the specification\<close>

text \<open>
  The specification speaks of lines of the comment body, of a command standing alone on
  its line, of eligible events and of the calls issued by one invocation. These
  definitions follow its words; the theorems relate them to the code above.
\<close>

text \<open>Whitespace that can stand inside one line: the class \<^verbatim>\<open>\s\<close> without the line feed.\<close>

definition isBlank :: "char \<Rightarrow> bool" where
  "isBlank c = (c = CHR 0x09 \<or> c = CHR 0x0C \<or> c = CHR 0x0D \<or> c = CHR 0x20)"

text \<open>The lines of a text: the pieces between line feeds, as \<^verbatim>\<open>strings.Split(s, "\n")\<close>.\<close>

fun splitLines :: "string \<Rightarrow> string list" where
  "splitLines [] = [[]]"
| "splitLines (c # cs) =
     (if c = newline then [] # splitLines cs
      else (case splitLines cs of [] \<Rightarrow> [[c]] | l # ls \<Rightarrow> (c # l) # ls))"

text \<open>
  Line \<open>l\<close> consists of the command \<open>cmd\<close>, in any mix of upper and lower case, followed
  by blanks only.
\<close>

definition standaloneLine :: "string \<Rightarrow> string \<Rightarrow> bool" where
  "standaloneLine cmd l =
     (map toLower (take (length cmd) l) = map toLower cmd \<and> list_all isBlank (drop (length cmd) l))"

definition hasStandaloneLine :: "string \<Rightarrow> string \<Rightarrow> bool" where
  "hasStandaloneLine cmd s = list_ex (standaloneLine cmd) (splitLines s)"

text \<open>The part of a text before its first line feed.\<close>

definition firstLine :: "string \<Rightarrow> string" where
  "firstLine s = takeWhile (\<lambda>c. c \<noteq> newline) s"

text \<open>The shape shared by the two patterns of the plugin.\<close>

definition commandRe :: "string \<Rightarrow> Regexp" where
  "commandRe cmd = BeginLine # map FoldChar cmd @ [StarSpace, EndLine]"

text \<open>An event that passes the filter of \<^verbatim>\<open>handleGenericComment\<close>.\<close>

definition eligible :: "GenericCommentEvent \<Rightarrow> bool" where
  "eligible e = (IsPR e \<and> IssueState e = ''open'' \<and> Action e = GenericCommentActionCreated)"

text \<open>The calls issued between world \<open>w\<close> and a later world \<open>w'\<close>.\<close>

definition issued :: "'c world \<Rightarrow> 'c world \<Rightarrow> call list" where
  "issued w w' = drop (length (calls w)) (calls w')"

fun isAddLabel :: "call \<Rightarrow> bool" where
  "isAddLabel (CallAddLabel org rp n l) = True"
| "isAddLabel c = False"

fun isRemoveLabel :: "call \<Rightarrow> bool" where
  "isRemoveLabel (CallRemoveLabel org rp n l) = True"
| "isRemoveLabel c = False"

definition addLabelCalls :: "call list \<Rightarrow> nat" where
  "addLabelCalls cs = length (filter isAddLabel cs)"

definition removeLabelCalls :: "call list \<Rightarrow> nat" where
  "removeLabelCalls cs = length (filter isRemoveLabel cs)"

subsection \<open>Concrete inputs\<close>

text \<open>
  A client without state whose three operations return fixed results, an open pull
  request with a freshly created comment, and an empty world.
\<close>

definition stubClient :: "Label list \<times> error option \<Rightarrow> error option \<Rightarrow> error option \<Rightarrow> unit githubClient" where
  "stubClient fetched added removed =
     \<lparr>AddLabel = (\<lambda>org rp n l c. (added, c)),
      RemoveLabel = (\<lambda>org rp n l c. (removed, c)),
      GetIssueLabels = (\<lambda>org rp n c. (fetched, c))\<rparr>"

definition commentEvent :: "string \<Rightarrow> GenericCommentEvent" where
  "commentEvent b =
     \<lparr>IsPR = True,
      Action = ''created'',
      Body = b,
      HTMLURL = ''https://example.test/org/repo/pull/5#c1'',
      Number = 5,
      EventRepo = \<lparr>Owner = \<lparr>Login = ''org''\<rparr>, RepoName = ''repo''\<rparr>,
      EventUser = \<lparr>Login = ''alice''\<rparr>,
      IssueAuthor = \<lparr>Login = ''bob''\<rparr>,
      IssueState = ''open''\<rparr>"

definition world0 :: "unit world" where
  "world0 = \<lparr>remote = (), calls = [], logged = []\<rparr>"

definition config0 :: Configuration where
  "config0 =
     \<lparr>ConfigMerge = [\<lparr>Repos = [''orgA'']\<rparr>, \<lparr>Repos = [''orgB/repoX'']\<rparr>],
      ConfigOwners = \<lparr>SkipCollaborators = []\<rparr>\<rparr>"

section \<open>The patterns and the lines of the body\<close>

lemma isBlank_iff: "isBlank c \<longleftrightarrow> isSpace c \<and> c \<noteq> newline"
  by (auto simp: isBlank_def isSpace_def newline_def)

lemma toLower_newline: "toLower newline = newline"
  by (simp add: toLower_def newline_def)

text \<open>The tail \<^verbatim>\<open>\s*$\<close> matches exactly when only blanks remain on the current line.\<close>

lemma matchHere_tail:
  "matchHere [StarSpace, EndLine] p s \<longleftrightarrow> list_all isBlank (firstLine s)"
proof (induction s arbitrary: p)
  case Nil
  show ?case by (simp add: firstLine_def)
next
  case (Cons x xs)
  show ?case
  proof (cases "x = newline")
    case True
    then show ?thesis by (simp add: firstLine_def)
  next
    case False
    then show ?thesis using Cons.IH [of "Some x"]
      by (simp add: firstLine_def isBlank_iff)
  qed
qed

lemma standaloneLine_Nil: "standaloneLine [] l = list_all isBlank l"
  by (simp add: standaloneLine_def)

lemma standaloneLine_Cons_Nil: "standaloneLine (c # cmd) [] = False"
  by (simp add: standaloneLine_def)

lemma standaloneLine_Cons_Cons:
  "standaloneLine (c # cmd) (x # l) = (toLower x = toLower c \<and> standaloneLine cmd l)"
  by (auto simp: standaloneLine_def)

lemma matchHere_literal:
  "newline \<notin> set (map toLower cmd) \<Longrightarrow>
   matchHere (map FoldChar cmd @ [StarSpace, EndLine]) p s \<longleftrightarrow> standaloneLine cmd (firstLine s)"
proof (induction cmd arbitrary: p s)
  case Nil
  show ?case using matchHere_tail [of p s] by (simp add: standaloneLine_Nil)
next
  case (Cons c cmd)
  then have nl: "toLower c \<noteq> newline" and rest: "newline \<notin> set (map toLower cmd)"
    by auto
  show ?case
  proof (cases s)
    case Nil
    then show ?thesis by (simp add: firstLine_def standaloneLine_Cons_Nil)
  next
    case (Cons x xs)
    show ?thesis
    proof (cases "x = newline")
      case True
      with nl have "toLower x \<noteq> toLower c" by (simp add: toLower_newline)
      with True Cons show ?thesis by (simp add: firstLine_def standaloneLine_Cons_Nil)
    next
      case False
      have "firstLine (x # xs) = x # firstLine xs" using False by (simp add: firstLine_def)
      then show ?thesis using Cons Cons.IH [OF rest, of "Some x" xs]
        by (simp add: standaloneLine_Cons_Cons)
    qed
  qed
qed

lemma matchHere_commandRe:
  "newline \<notin> set (map toLower cmd) \<Longrightarrow>
   matchHere (commandRe cmd) p s \<longleftrightarrow>
     (p = None \<or> p = Some newline) \<and> standaloneLine cmd (firstLine s)"
  by (simp add: commandRe_def matchHere_literal)

lemma splitLines_hd: "\<exists>ls. splitLines s = firstLine s # ls"
  by (induction s) (auto simp: firstLine_def)

text \<open>
  A match somewhere in \<open>s\<close>: at the very start when \<open>s\<close> begins a line, or on one of
  the later lines.
\<close>

lemma matchFrom_commandRe:
  assumes "newline \<notin> set (map toLower cmd)"
  shows "matchFrom (commandRe cmd) p s \<longleftrightarrow>
     ((p = None \<or> p = Some newline) \<and> standaloneLine cmd (firstLine s))
     \<or> list_ex (standaloneLine cmd) (tl (splitLines s))"
proof (induction s arbitrary: p)
  case Nil
  show ?case using matchHere_commandRe [OF assms, of p "[]"] by simp
next
  case (Cons x xs)
  obtain ls where ls: "splitLines xs = firstLine xs # ls"
    using splitLines_hd by blast
  show ?case
  proof (cases "x = newline")
    case True
    then show ?thesis
      using matchHere_commandRe [OF assms, of p "x # xs"] Cons.IH [of "Some x"] ls
      by auto
  next
    case False
    then show ?thesis
      using matchHere_commandRe [OF assms, of p "x # xs"] Cons.IH [of "Some x"] ls
      by auto
  qed
qed

lemma MatchString_commandRe:
  assumes "newline \<notin> set (map toLower cmd)"
  shows "MatchString (commandRe cmd) s \<longleftrightarrow> hasStandaloneLine cmd s"
proof -
  obtain ls where ls: "splitLines s = firstLine s # ls"
    using splitLines_hd by blast
  show ?thesis
    using matchFrom_commandRe [OF assms, of None s] ls
    by (simp add: MatchString_def hasStandaloneLine_def)
qed

text \<open>Each pattern of the plugin matches a body exactly when the body has such a line.\<close>

lemma mergeRe_lines: "MatchString mergeRe s \<longleftrightarrow> hasStandaloneLine ''/merge'' s"
proof -
  have "newline \<notin> set (map toLower ''/merge'')"
    by (simp add: toLower_def newline_def)
  from MatchString_commandRe [OF this] show ?thesis
    by (simp add: commandRe_def mergeRe_def)
qed

lemma mergeCancelRe_lines:
  "MatchString mergeCancelRe s \<longleftrightarrow> hasStandaloneLine ''/merge cancel'' s"
proof -
  have "newline \<notin> set (map toLower ''/merge cancel'')"
    by (simp add: toLower_def newline_def)
  from MatchString_commandRe [OF this] show ?thesis
    by (simp add: commandRe_def mergeCancelRe_def)
qed

section \<open>The three outcomes of the reconciliation\<close>

lemma handle_same:
  assumes "GetIssueLabels gc (Login (Owner (repo rc))) (RepoName (repo rc)) (number rc) (remote w) = ((labels, err), c)"
      and "HasLabel mergeLabel labels = wantMerge"
  shows "fst (handle wantMerge config rc gc w) = None"
    and "calls (snd (handle wantMerge config rc gc w)) =
         calls w @ [CallGetIssueLabels (Login (Owner (repo rc))) (RepoName (repo rc)) (number rc)]"
    and "remote (snd (handle wantMerge config rc gc w)) = c"
  using assms
  by (auto simp add: handle_def doGetIssueLabels_def logIt_def Let_def split: option.splits)

lemma handle_remove:
  assumes "GetIssueLabels gc (Login (Owner (repo rc))) (RepoName (repo rc)) (number rc) (remote w) = ((labels, err), c)"
      and "HasLabel mergeLabel labels" and "\<not> wantMerge"
      and "RemoveLabel gc (Login (Owner (repo rc))) (RepoName (repo rc)) (number rc) mergeLabel c = (res, c')"
  shows "fst (handle wantMerge config rc gc w) = res"
    and "calls (snd (handle wantMerge config rc gc w)) =
         calls w @ [CallGetIssueLabels (Login (Owner (repo rc))) (RepoName (repo rc)) (number rc),
                    CallRemoveLabel (Login (Owner (repo rc))) (RepoName (repo rc)) (number rc) mergeLabel]"
    and "remote (snd (handle wantMerge config rc gc w)) = c'"
  using assms
  by (simp_all add: handle_def doGetIssueLabels_def doRemoveLabel_def logIt_def Let_def split: option.splits)

lemma handle_add:
  assumes "GetIssueLabels gc (Login (Owner (repo rc))) (RepoName (repo rc)) (number rc) (remote w) = ((labels, err), c)"
      and "\<not> HasLabel mergeLabel labels" and "wantMerge"
      and "AddLabel gc (Login (Owner (repo rc))) (RepoName (repo rc)) (number rc) mergeLabel c = (res, c')"
  shows "fst (handle wantMerge config rc gc w) = res"
    and "calls (snd (handle wantMerge config rc gc w)) =
         calls w @ [CallGetIssueLabels (Login (Owner (repo rc))) (RepoName (repo rc)) (number rc),
                    CallAddLabel (Login (Owner (repo rc))) (RepoName (repo rc)) (number rc) mergeLabel]"
    and "remote (snd (handle wantMerge config rc gc w)) = c'"
  using assms
  by (simp_all add: handle_def doGetIssueLabels_def doAddLabel_def logIt_def Let_def split: option.splits)

lemma issued_append: "calls w' = calls w @ cs \<Longrightarrow> issued w w' = cs"
  by (simp add: issued_def)

lemma newReviewCtx_sel:
  "repo (newReviewCtx e) = EventRepo e" "number (newReviewCtx e) = Number e" "body (newReviewCtx e) = Body e"
  by (simp_all add: newReviewCtx_def)

lemma handleGenericComment_merge:
  "eligible e \<Longrightarrow> MatchString mergeRe (Body e) \<Longrightarrow>
   handleGenericComment gc config e w = handle True config (newReviewCtx e) gc w"
  by (simp add: handleGenericComment_def eligible_def Let_def newReviewCtx_sel)

lemma handleGenericComment_cancel:
  "eligible e \<Longrightarrow> \<not> MatchString mergeRe (Body e) \<Longrightarrow> MatchString mergeCancelRe (Body e) \<Longrightarrow>
   handleGenericComment gc config e w = handle False config (newReviewCtx e) gc w"
  by (simp add: handleGenericComment_def eligible_def Let_def newReviewCtx_sel)

lemma handleGenericComment_none:
  "\<not> MatchString mergeRe (Body e) \<Longrightarrow> \<not> MatchString mergeCancelRe (Body e) \<Longrightarrow>
   handleGenericComment gc config e w = (None, w)"
  by (simp add: handleGenericComment_def Let_def newReviewCtx_sel)

lemma handleGenericComment_filtered:
  "\<not> eligible e \<Longrightarrow> handleGenericComment gc config e w = (None, w)"
  by (auto simp add: handleGenericComment_def eligible_def Let_def)

lemma handle_at_most_one:
  "take (length (calls w)) (calls (snd (handle wantMerge config rc gc w))) = calls w \<and>
   addLabelCalls (issued w (snd (handle wantMerge config rc gc w)))
     + removeLabelCalls (issued w (snd (handle wantMerge config rc gc w))) \<le> 1"
proof -
  obtain labels err c where
    fetch: "GetIssueLabels gc (Login (Owner (repo rc))) (RepoName (repo rc)) (number rc) (remote w) = ((labels, err), c)"
    by (metis surj_pair)
  obtain ra ca where add: "AddLabel gc (Login (Owner (repo rc))) (RepoName (repo rc)) (number rc) mergeLabel c = (ra, ca)"
    by (metis surj_pair)
  obtain rr cr where rem: "RemoveLabel gc (Login (Owner (repo rc))) (RepoName (repo rc)) (number rc) mergeLabel c = (rr, cr)"
    by (metis surj_pair)
  consider (same) "HasLabel mergeLabel labels = wantMerge"
    | (remove) "HasLabel mergeLabel labels" "\<not> wantMerge"
    | (add) "\<not> HasLabel mergeLabel labels" "wantMerge"
    by blast
  then show ?thesis
  proof cases
    case same
    from handle_same(2) [OF fetch same, of config] show ?thesis
      by (simp add: issued_def addLabelCalls_def removeLabelCalls_def)
  next
    case remove
    from handle_remove(2) [OF fetch remove rem, of config] show ?thesis
      by (simp add: issued_def addLabelCalls_def removeLabelCalls_def)
  next
    case add
    from handle_add(2) [OF fetch add \<open>AddLabel gc _ _ _ _ _ = _\<close>, of config] show ?thesis
      by (simp add: issued_def addLabelCalls_def removeLabelCalls_def)
  qed
qed

section \<open>The configuration lookup\<close>

lemma strInSlice_set: "strInSlice str slice \<longleftrightarrow> str \<in> set slice"
  by (induction slice) auto

lemma optionsLoop_find:
  "optionsLoop org fullName ms = find (\<lambda>m. org \<in> set (Repos m) \<or> fullName \<in> set (Repos m)) ms"
  by (induction ms) (auto simp: strInSlice_set)


section \<open>The body of the comment and the reconciliation\<close>

text \<open>\<open>handle\<close> reads the repository and the number of its context, not the body.\<close>

lemma newReviewCtx_Body_update:
  "repo (newReviewCtx (e\<lparr>Body := b\<rparr>)) = repo (newReviewCtx e)"
  "number (newReviewCtx (e\<lparr>Body := b\<rparr>)) = number (newReviewCtx e)"
  by (simp_all add: newReviewCtx_def)

lemma handle_body_irrelevant:
  "handle wantMerge config (newReviewCtx (e\<lparr>Body := b\<rparr>)) gc w = handle wantMerge config (newReviewCtx e) gc w"
  unfolding handle_def newReviewCtx_Body_update by (rule refl)

section \<open>Claims\<close>

text \<open>
  C1. Whenever the fetched labels already agree with the request (\<open>has = wantMerge\<close>),
  \<open>handle\<close> returns \<^verbatim>\<open>nil\<close> and issues no \<^verbatim>\<open>AddLabel\<close> and no
  \<^verbatim>\<open>RemoveLabel\<close> call: the only call of the invocation is the label read.
\<close>

theorem handle_in_sync_no_mutation:
  assumes "GetIssueLabels gc (Login (Owner (repo rc))) (RepoName (repo rc)) (number rc) (remote w) = ((labels, err), c)"
      and "HasLabel mergeLabel labels = wantMerge"
  shows "fst (handle wantMerge config rc gc w) = None \<and>
         calls (snd (handle wantMerge config rc gc w)) =
           calls w @ [CallGetIssueLabels (Login (Owner (repo rc))) (RepoName (repo rc)) (number rc)] \<and>
         addLabelCalls (issued w (snd (handle wantMerge config rc gc w))) = 0 \<and>
         removeLabelCalls (issued w (snd (handle wantMerge config rc gc w))) = 0"
proof -
  note c = handle_same(2) [OF assms, of config]
  from handle_same(1) [OF assms, of config] c issued_append [OF c] show ?thesis
    by (simp add: addLabelCalls_def removeLabelCalls_def)
qed

theorem handle_in_sync_no_mutation_witness:
  "HasLabel mergeLabel [\<lparr>Name = ''ok-to-merge''\<rparr>] = True \<and>
   fst (handle True config0 (newReviewCtx (commentEvent ''/merge''))
          (stubClient ([\<lparr>Name = ''ok-to-merge''\<rparr>], None) None None) world0) = None \<and>
   calls (snd (handle True config0 (newReviewCtx (commentEvent ''/merge''))
          (stubClient ([\<lparr>Name = ''ok-to-merge''\<rparr>], None) None None) world0)) =
     [CallGetIssueLabels ''org'' ''repo'' 5]"
proof -
  let ?gc = "stubClient ([\<lparr>Name = ''ok-to-merge''\<rparr>], None) None None"
  let ?rc = "newReviewCtx (commentEvent ''/merge'')"
  have f: "GetIssueLabels ?gc (Login (Owner (repo ?rc))) (RepoName (repo ?rc)) (number ?rc) (remote world0)
             = (([\<lparr>Name = ''ok-to-merge''\<rparr>], None), ())"
    by (simp add: stubClient_def)
  have h: "HasLabel mergeLabel [\<lparr>Name = ''ok-to-merge''\<rparr>] = True"
    by (simp add: mergeLabel_def)
  from handle_in_sync_no_mutation [OF f h, of config0] h show ?thesis
    by (simp add: newReviewCtx_def commentEvent_def world0_def)
qed

text \<open>
  C2. An event that is not on a pull request, or whose issue is not open, or whose action
  is not "created" makes \<open>handleGenericComment\<close> return \<^verbatim>\<open>nil\<close> with the world
  unchanged: no call on the client, neither a label read nor a label write.
\<close>

theorem handleGenericComment_not_applicable:
  assumes "\<not> IsPR e \<or> IssueState e \<noteq> ''open'' \<or> Action e \<noteq> GenericCommentActionCreated"
  shows "handleGenericComment gc config e w = (None, w) \<and>
         issued w (snd (handleGenericComment gc config e w)) = []"
  using assms by (auto simp add: handleGenericComment_def Let_def issued_def)

theorem handleGenericComment_not_applicable_witness:
  "IssueState ((commentEvent ''/merge'')\<lparr>IssueState := ''closed''\<rparr>) \<noteq> ''open'' \<and>
   handleGenericComment (stubClient ([], None) None None) config0
     ((commentEvent ''/merge'')\<lparr>IssueState := ''closed''\<rparr>) world0 = (None, world0)"
proof -
  have h: "\<not> IsPR ((commentEvent ''/merge'')\<lparr>IssueState := ''closed''\<rparr>) \<or>
           IssueState ((commentEvent ''/merge'')\<lparr>IssueState := ''closed''\<rparr>) \<noteq> ''open'' \<or>
           Action ((commentEvent ''/merge'')\<lparr>IssueState := ''closed''\<rparr>) \<noteq> GenericCommentActionCreated"
    by (simp add: commentEvent_def)
  from handleGenericComment_not_applicable [OF h, of "stubClient ([], None) None None" config0 world0]
  show ?thesis by (simp add: commentEvent_def)
qed

text \<open>
  C3. For an eligible event whose body has a standalone "/merge" line and whose fetched
  labels do not contain "ok-to-merge", the handler issues the label read and then exactly
  one \<^verbatim>\<open>AddLabel\<close> call for "ok-to-merge", no \<^verbatim>\<open>RemoveLabel\<close> call, and returns
  what \<^verbatim>\<open>AddLabel\<close> returned (\<^verbatim>\<open>nil\<close> or its error).
\<close>

theorem handleGenericComment_adds_label:
  assumes "eligible e"
      and "hasStandaloneLine ''/merge'' (Body e)"
      and "GetIssueLabels gc (Login (Owner (EventRepo e))) (RepoName (EventRepo e)) (Number e) (remote w) = ((labels, err), c)"
      and "\<not> HasLabel mergeLabel labels"
      and "AddLabel gc (Login (Owner (EventRepo e))) (RepoName (EventRepo e)) (Number e) mergeLabel c = (res, c')"
  shows "fst (handleGenericComment gc config e w) = res \<and>
         calls (snd (handleGenericComment gc config e w)) =
           calls w @ [CallGetIssueLabels (Login (Owner (EventRepo e))) (RepoName (EventRepo e)) (Number e),
                      CallAddLabel (Login (Owner (EventRepo e))) (RepoName (EventRepo e)) (Number e) ''ok-to-merge''] \<and>
         addLabelCalls (issued w (snd (handleGenericComment gc config e w))) = 1 \<and>
         removeLabelCalls (issued w (snd (handleGenericComment gc config e w))) = 0"
proof -
  have m: "MatchString mergeRe (Body e)" using assms(2) by (simp add: mergeRe_lines)
  have eq: "handleGenericComment gc config e w = handle True config (newReviewCtx e) gc w"
    by (rule handleGenericComment_merge [OF assms(1) m])
  have f: "GetIssueLabels gc (Login (Owner (repo (newReviewCtx e)))) (RepoName (repo (newReviewCtx e)))
             (number (newReviewCtx e)) (remote w) = ((labels, err), c)"
    using assms(3) by (simp add: newReviewCtx_sel)
  have a: "AddLabel gc (Login (Owner (repo (newReviewCtx e)))) (RepoName (repo (newReviewCtx e)))
             (number (newReviewCtx e)) mergeLabel c = (res, c')"
    using assms(5) by (simp add: newReviewCtx_sel)
  note r = handle_add(1) [OF f assms(4) TrueI a, of config]
  note cs = handle_add(2) [OF f assms(4) TrueI a, of config]
  show ?thesis using r cs issued_append [OF cs]
    by (simp add: eq newReviewCtx_sel addLabelCalls_def removeLabelCalls_def mergeLabel_def)
qed

theorem handleGenericComment_adds_label_witness:
  "eligible (commentEvent ''/merge'') \<and>
   hasStandaloneLine ''/merge'' (Body (commentEvent ''/merge'')) \<and>
   \<not> HasLabel mergeLabel [] \<and>
   fst (handleGenericComment (stubClient ([], None) (Some (Error ''denied'')) None) config0
          (commentEvent ''/merge'') world0) = Some (Error ''denied'') \<and>
   calls (snd (handleGenericComment (stubClient ([], None) (Some (Error ''denied'')) None) config0
          (commentEvent ''/merge'') world0)) =
     [CallGetIssueLabels ''org'' ''repo'' 5, CallAddLabel ''org'' ''repo'' 5 ''ok-to-merge'']"
proof -
  let ?gc = "stubClient ([], None) (Some (Error ''denied'')) None"
  let ?e = "commentEvent ''/merge''"
  have el: "eligible ?e"
    by (simp add: eligible_def commentEvent_def GenericCommentActionCreated_def)
  have ln: "hasStandaloneLine ''/merge'' (Body ?e)"
    by (simp add: hasStandaloneLine_def standaloneLine_def commentEvent_def newline_def)
  have f: "GetIssueLabels ?gc (Login (Owner (EventRepo ?e))) (RepoName (EventRepo ?e)) (Number ?e) (remote world0)
             = (([], None), ())"
    by (simp add: stubClient_def)
  have h: "\<not> HasLabel mergeLabel []" by simp
  have a: "AddLabel ?gc (Login (Owner (EventRepo ?e))) (RepoName (EventRepo ?e)) (Number ?e) mergeLabel ()
             = (Some (Error ''denied''), ())"
    by (simp add: stubClient_def)
  from handleGenericComment_adds_label [OF el ln f h a, of config0] el ln show ?thesis
    by (simp add: commentEvent_def world0_def)
qed

text \<open>
  C4. For an eligible event whose body has a standalone "/merge cancel" line and no
  standalone "/merge" line, and whose fetched labels contain "ok-to-merge", the handler
  issues the label read and then exactly one \<^verbatim>\<open>RemoveLabel\<close> call, no
  \<^verbatim>\<open>AddLabel\<close> call, and returns the result of \<^verbatim>\<open>RemoveLabel\<close> as it is.
\<close>

theorem handleGenericComment_removes_label:
  assumes "eligible e"
      and "hasStandaloneLine ''/merge cancel'' (Body e)"
      and "\<not> hasStandaloneLine ''/merge'' (Body e)"
      and "GetIssueLabels gc (Login (Owner (EventRepo e))) (RepoName (EventRepo e)) (Number e) (remote w) = ((labels, err), c)"
      and "HasLabel mergeLabel labels"
      and "RemoveLabel gc (Login (Owner (EventRepo e))) (RepoName (EventRepo e)) (Number e) mergeLabel c = (res, c')"
  shows "fst (handleGenericComment gc config e w) = res \<and>
         calls (snd (handleGenericComment gc config e w)) =
           calls w @ [CallGetIssueLabels (Login (Owner (EventRepo e))) (RepoName (EventRepo e)) (Number e),
                      CallRemoveLabel (Login (Owner (EventRepo e))) (RepoName (EventRepo e)) (Number e) ''ok-to-merge''] \<and>
         removeLabelCalls (issued w (snd (handleGenericComment gc config e w))) = 1 \<and>
         addLabelCalls (issued w (snd (handleGenericComment gc config e w))) = 0"
proof -
  have m: "\<not> MatchString mergeRe (Body e)" using assms(3) by (simp add: mergeRe_lines)
  have mc: "MatchString mergeCancelRe (Body e)" using assms(2) by (simp add: mergeCancelRe_lines)
  have eq: "handleGenericComment gc config e w = handle False config (newReviewCtx e) gc w"
    by (rule handleGenericComment_cancel [OF assms(1) m mc])
  have f: "GetIssueLabels gc (Login (Owner (repo (newReviewCtx e)))) (RepoName (repo (newReviewCtx e)))
             (number (newReviewCtx e)) (remote w) = ((labels, err), c)"
    using assms(4) by (simp add: newReviewCtx_sel)
  have a: "RemoveLabel gc (Login (Owner (repo (newReviewCtx e)))) (RepoName (repo (newReviewCtx e)))
             (number (newReviewCtx e)) mergeLabel c = (res, c')"
    using assms(6) by (simp add: newReviewCtx_sel)
  have nf: "\<not> False" by simp
  note r = handle_remove(1) [OF f assms(5) nf a, of config]
  note cs = handle_remove(2) [OF f assms(5) nf a, of config]
  show ?thesis using r cs issued_append [OF cs]
    by (simp add: eq newReviewCtx_sel addLabelCalls_def removeLabelCalls_def mergeLabel_def)
qed

theorem handleGenericComment_removes_label_witness:
  "eligible (commentEvent ''/merge cancel'') \<and>
   hasStandaloneLine ''/merge cancel'' (Body (commentEvent ''/merge cancel'')) \<and>
   \<not> hasStandaloneLine ''/merge'' (Body (commentEvent ''/merge cancel'')) \<and>
   HasLabel mergeLabel [\<lparr>Name = ''ok-to-merge''\<rparr>] \<and>
   fst (handleGenericComment (stubClient ([\<lparr>Name = ''ok-to-merge''\<rparr>], None) None (Some (Error ''gone''))) config0
          (commentEvent ''/merge cancel'') world0) = Some (Error ''gone'') \<and>
   calls (snd (handleGenericComment (stubClient ([\<lparr>Name = ''ok-to-merge''\<rparr>], None) None (Some (Error ''gone''))) config0
          (commentEvent ''/merge cancel'') world0)) =
     [CallGetIssueLabels ''org'' ''repo'' 5, CallRemoveLabel ''org'' ''repo'' 5 ''ok-to-merge'']"
proof -
  let ?gc = "stubClient ([\<lparr>Name = ''ok-to-merge''\<rparr>], None) None (Some (Error ''gone''))"
  let ?e = "commentEvent ''/merge cancel''"
  have el: "eligible ?e"
    by (simp add: eligible_def commentEvent_def GenericCommentActionCreated_def)
  have ln: "hasStandaloneLine ''/merge cancel'' (Body ?e)"
    by (simp add: hasStandaloneLine_def standaloneLine_def commentEvent_def newline_def)
  have nln: "\<not> hasStandaloneLine ''/merge'' (Body ?e)"
    by (simp add: hasStandaloneLine_def standaloneLine_def commentEvent_def newline_def isBlank_def)
  have f: "GetIssueLabels ?gc (Login (Owner (EventRepo ?e))) (RepoName (EventRepo ?e)) (Number ?e) (remote world0)
             = (([\<lparr>Name = ''ok-to-merge''\<rparr>], None), ())"
    by (simp add: stubClient_def)
  have h: "HasLabel mergeLabel [\<lparr>Name = ''ok-to-merge''\<rparr>]" by (simp add: mergeLabel_def)
  have a: "RemoveLabel ?gc (Login (Owner (EventRepo ?e))) (RepoName (EventRepo ?e)) (Number ?e) mergeLabel ()
             = (Some (Error ''gone''), ())"
    by (simp add: stubClient_def)
  from handleGenericComment_removes_label [OF el ln nln f h a, of config0] el ln nln h show ?thesis
    by (simp add: commentEvent_def world0_def)
qed

text \<open>
  C5 as stated: when \<^verbatim>\<open>GetIssueLabels\<close> fails, the handler goes on as if the label
  were absent, deciding as for an empty label set. The code goes on, but with the slice
  that came back with the error: \<open>has\<close> is computed from it (line 153 follows the
  error branch without a reset). A client that returns an error together with a slice
  naming "ok-to-merge" makes a "/merge cancel" remove the label, where an empty label set
  gives no mutation.
\<close>

theorem handle_fetch_failure_counterexample:
  "GetIssueLabels (stubClient ([\<lparr>Name = ''ok-to-merge''\<rparr>], Some (Error ''partial read'')) None None)
      ''org'' ''repo'' 5 () = (([\<lparr>Name = ''ok-to-merge''\<rparr>], Some (Error ''partial read'')), ()) \<and>
   calls (snd (handle False config0 (newReviewCtx (commentEvent ''/merge cancel''))
          (stubClient ([\<lparr>Name = ''ok-to-merge''\<rparr>], Some (Error ''partial read'')) None None) world0)) =
     [CallGetIssueLabels ''org'' ''repo'' 5, CallRemoveLabel ''org'' ''repo'' 5 ''ok-to-merge''] \<and>
   calls (snd (handle False config0 (newReviewCtx (commentEvent ''/merge cancel''))
          (stubClient ([], None) None None) world0)) =
     [CallGetIssueLabels ''org'' ''repo'' 5]"
  by (simp add: handle_def doGetIssueLabels_def doRemoveLabel_def logIt_def stubClient_def
      newReviewCtx_def commentEvent_def world0_def mergeLabel_def Let_def)

text \<open>
  C5, amended. When \<^verbatim>\<open>GetIssueLabels\<close> fails, the handler does not abort: it logs the
  failure and decides from the slice returned with the error. Returned error, calls and
  client state are those of the run in which the same read succeeds with the same slice;
  for the empty (nil) slice of a failed Go call this is the decision for an empty label
  set.
\<close>

theorem handle_fetch_failure:
  assumes "GetIssueLabels gc (Login (Owner (repo rc))) (RepoName (repo rc)) (number rc) (remote w) = ((labels, Some e), c)"
  shows "fst (handle wantMerge config rc gc w) =
           fst (handle wantMerge config rc (gc\<lparr>GetIssueLabels := \<lambda>org rp n s. ((labels, None), c)\<rparr>) w) \<and>
         calls (snd (handle wantMerge config rc gc w)) =
           calls (snd (handle wantMerge config rc (gc\<lparr>GetIssueLabels := \<lambda>org rp n s. ((labels, None), c)\<rparr>) w)) \<and>
         remote (snd (handle wantMerge config rc gc w)) =
           remote (snd (handle wantMerge config rc (gc\<lparr>GetIssueLabels := \<lambda>org rp n s. ((labels, None), c)\<rparr>) w)) \<and>
         LogErrorf e ''Failed to get the labels on %s/%s#%d.'' (Login (Owner (repo rc))) (RepoName (repo rc)) (number rc)
           \<in> set (logged (snd (handle wantMerge config rc gc w)))"
  using assms
  by (simp add: handle_def doGetIssueLabels_def doRemoveLabel_def doAddLabel_def logIt_def Let_def
      split: prod.splits option.splits)

theorem handle_fetch_failure_witness:
  "GetIssueLabels (stubClient ([], Some (Error ''timeout'')) None None) ''org'' ''repo'' 5 ()
     = (([], Some (Error ''timeout'')), ()) \<and>
   fst (handle True config0 (newReviewCtx (commentEvent ''/merge''))
          (stubClient ([], Some (Error ''timeout'')) None None) world0) =
   fst (handle True config0 (newReviewCtx (commentEvent ''/merge''))
          (stubClient ([], None) None None) world0) \<and>
   calls (snd (handle True config0 (newReviewCtx (commentEvent ''/merge''))
          (stubClient ([], Some (Error ''timeout'')) None None) world0)) =
   calls (snd (handle True config0 (newReviewCtx (commentEvent ''/merge''))
          (stubClient ([], None) None None) world0)) \<and>
   calls (snd (handle True config0 (newReviewCtx (commentEvent ''/merge''))
          (stubClient ([], None) None None) world0)) =
     [CallGetIssueLabels ''org'' ''repo'' 5, CallAddLabel ''org'' ''repo'' 5 ''ok-to-merge'']"
proof -
  let ?gc = "stubClient ([], Some (Error ''timeout'')) None None"
  let ?rc = "newReviewCtx (commentEvent ''/merge'')"
  have f: "GetIssueLabels ?gc (Login (Owner (repo ?rc))) (RepoName (repo ?rc)) (number ?rc) (remote world0)
             = (([], Some (Error ''timeout'')), ())"
    by (simp add: stubClient_def)
  have g: "?gc\<lparr>GetIssueLabels := \<lambda>org rp n s. (([], None), ())\<rparr> = stubClient ([], None) None None"
    by (simp add: stubClient_def)
  have t: "calls (snd (handle True config0 ?rc (stubClient ([], None) None None) world0)) =
     [CallGetIssueLabels ''org'' ''repo'' 5, CallAddLabel ''org'' ''repo'' 5 ''ok-to-merge'']"
    by (simp add: handle_def doGetIssueLabels_def doAddLabel_def logIt_def stubClient_def
        newReviewCtx_def commentEvent_def world0_def mergeLabel_def Let_def)
  from handle_fetch_failure [OF f, of True config0] t show ?thesis
    by (simp add: g stubClient_def)
qed

text \<open>
  C6. When the body of an eligible event has both a standalone "/merge" line and a
  standalone "/merge cancel" line, in either order, both patterns match, the merge
  pattern is the one tested first, and the handler goes on with \<open>wantMerge = True\<close>.
\<close>

theorem handleGenericComment_merge_wins:
  assumes "eligible e"
      and "hasStandaloneLine ''/merge'' (Body e)"
      and "hasStandaloneLine ''/merge cancel'' (Body e)"
  shows "MatchString mergeRe (Body e) \<and> MatchString mergeCancelRe (Body e) \<and>
         handleGenericComment gc config e w = handle True config (newReviewCtx e) gc w"
  using assms handleGenericComment_merge [of e gc config w]
  by (simp add: mergeRe_lines mergeCancelRe_lines)

theorem handleGenericComment_merge_wins_witness:
  "eligible (commentEvent (''/merge cancel'' @ [newline] @ ''/merge'')) \<and>
   hasStandaloneLine ''/merge'' (''/merge cancel'' @ [newline] @ ''/merge'') \<and>
   hasStandaloneLine ''/merge cancel'' (''/merge cancel'' @ [newline] @ ''/merge'') \<and>
   hasStandaloneLine ''/merge'' (''/merge'' @ [newline] @ ''/merge cancel'') \<and>
   hasStandaloneLine ''/merge cancel'' (''/merge'' @ [newline] @ ''/merge cancel'') \<and>
   handleGenericComment (stubClient ([], None) None None) config0
     (commentEvent (''/merge cancel'' @ [newline] @ ''/merge'')) world0 =
   handle True config0 (newReviewCtx (commentEvent (''/merge cancel'' @ [newline] @ ''/merge'')))
     (stubClient ([], None) None None) world0 \<and>
   handleGenericComment (stubClient ([], None) None None) config0
     (commentEvent (''/merge'' @ [newline] @ ''/merge cancel'')) world0 =
   handle True config0 (newReviewCtx (commentEvent (''/merge'' @ [newline] @ ''/merge cancel'')))
     (stubClient ([], None) None None) world0"
proof -
  let ?b1 = "''/merge cancel'' @ [newline] @ ''/merge''"
  let ?b2 = "''/merge'' @ [newline] @ ''/merge cancel''"
  have el: "eligible (commentEvent b)" for b
    by (simp add: eligible_def commentEvent_def GenericCommentActionCreated_def)
  have m1: "hasStandaloneLine ''/merge'' ?b1" and c1: "hasStandaloneLine ''/merge cancel'' ?b1"
   and m2: "hasStandaloneLine ''/merge'' ?b2" and c2: "hasStandaloneLine ''/merge cancel'' ?b2"
    by (simp_all add: hasStandaloneLine_def standaloneLine_def newline_def isBlank_def)
  have b: "Body (commentEvent b) = b" for b by (simp add: commentEvent_def)
  from handleGenericComment_merge_wins [of "commentEvent ?b1" "stubClient ([], None) None None" config0 world0]
       handleGenericComment_merge_wins [of "commentEvent ?b2" "stubClient ([], None) None None" config0 world0]
       el m1 c1 m2 c2
  show ?thesis by (simp only: b simp_thms)
qed

text \<open>
  C7 as stated: a line holding only "/merge", with whitespace before or after it,
  classifies as a merge request. The pattern is anchored at the start of the line, so a
  line with a leading space is no command: the handler returns without any call, where a
  merge request would have added the label.
\<close>

theorem leading_space_counterexample:
  "eligible (commentEvent '' /merge'') \<and>
   \<not> MatchString mergeRe '' /merge'' \<and>
   handleGenericComment (stubClient ([], None) None None) config0 (commentEvent '' /merge'') world0
     = (None, world0) \<and>
   calls (snd (handle True config0 (newReviewCtx (commentEvent '' /merge''))
     (stubClient ([], None) None None) world0)) =
     [CallGetIssueLabels ''org'' ''repo'' 5, CallAddLabel ''org'' ''repo'' 5 ''ok-to-merge'']"
  by (simp add: eligible_def commentEvent_def GenericCommentActionCreated_def
      handleGenericComment_def MatchString_def mergeRe_def mergeCancelRe_def toLower_def newline_def
      isSpace_def newReviewCtx_def handle_def doGetIssueLabels_def doAddLabel_def logIt_def
      stubClient_def world0_def mergeLabel_def Let_def)

text \<open>
  C7, amended. A line holding only "/merge", in any mix of upper and lower case and
  followed by blanks only, classifies as a merge request: the handler of an eligible event
  goes on with \<open>wantMerge = True\<close>. Such a line is the token followed by the blanks; and
  the body "/MERGE" is handled exactly as the body "/merge".
\<close>

theorem handleGenericComment_standalone_merge:
  "(eligible e \<and> hasStandaloneLine ''/merge'' (Body e) \<longrightarrow>
      handleGenericComment gc config e w = handle True config (newReviewCtx e) gc w) \<and>
   (map toLower tok = ''/merge'' \<and> list_all isBlank trail \<longrightarrow> standaloneLine ''/merge'' (tok @ trail)) \<and>
   handleGenericComment gc config (e\<lparr>Body := ''/MERGE''\<rparr>) w =
     handleGenericComment gc config (e\<lparr>Body := ''/merge''\<rparr>) w"
proof (intro conjI impI)
  assume "eligible e \<and> hasStandaloneLine ''/merge'' (Body e)"
  then show "handleGenericComment gc config e w = handle True config (newReviewCtx e) gc w"
    using handleGenericComment_merge [of e gc config w] by (simp add: mergeRe_lines)
next
  assume a: "map toLower tok = ''/merge'' \<and> list_all isBlank trail"
  then have "length (map toLower tok) = length ''/merge''" by simp
  then have "length tok = 6" by simp
  with a show "standaloneLine ''/merge'' (tok @ trail)"
    by (simp add: standaloneLine_def toLower_def)
next
  have u: "MatchString mergeRe ''/MERGE''" and l: "MatchString mergeRe ''/merge''"
    by (simp_all add: MatchString_def mergeRe_def toLower_def)
  show "handleGenericComment gc config (e\<lparr>Body := ''/MERGE''\<rparr>) w =
        handleGenericComment gc config (e\<lparr>Body := ''/merge''\<rparr>) w"
    using u l by (simp add: handleGenericComment_def Let_def newReviewCtx_sel handle_body_irrelevant)
qed

theorem handleGenericComment_standalone_merge_witness:
  "eligible (commentEvent (''hello'' @ [newline] @ ''/MeRgE  '' @ [newline] @ ''bye'')) \<and>
   hasStandaloneLine ''/merge'' (''hello'' @ [newline] @ ''/MeRgE  '' @ [newline] @ ''bye'') \<and>
   map toLower ''/MeRgE'' = ''/merge'' \<and> list_all isBlank ''  '' \<and>
   standaloneLine ''/merge'' (''/MeRgE'' @ ''  '') \<and>
   handleGenericComment (stubClient ([], None) None None) config0
     (commentEvent (''hello'' @ [newline] @ ''/MeRgE  '' @ [newline] @ ''bye'')) world0 =
   handle True config0 (newReviewCtx (commentEvent (''hello'' @ [newline] @ ''/MeRgE  '' @ [newline] @ ''bye'')))
     (stubClient ([], None) None None) world0"
proof -
  let ?b = "''hello'' @ [newline] @ ''/MeRgE  '' @ [newline] @ ''bye''"
  have el: "eligible (commentEvent ?b)"
    by (simp add: eligible_def commentEvent_def GenericCommentActionCreated_def)
  have ln: "hasStandaloneLine ''/merge'' (Body (commentEvent ?b))"
    by (simp add: hasStandaloneLine_def standaloneLine_def commentEvent_def newline_def toLower_def isBlank_def)
  have tk: "map toLower ''/MeRgE'' = ''/merge''" by (simp add: toLower_def)
  have bl: "list_all isBlank ''  ''" by (simp add: isBlank_def)
  have b: "Body (commentEvent ?b) = ?b" by (simp add: commentEvent_def)
  from handleGenericComment_standalone_merge
         [of "commentEvent ?b" "stubClient ([], None) None None" config0 world0 "''/MeRgE''" "''  ''"]
       el ln tk bl
  show ?thesis by (simp only: b simp_thms)
qed

text \<open>
  C8. When no line of the body of an eligible event is a standalone "/merge" or a
  standalone "/merge cancel" (as for the body "foo /merge bar"), neither pattern matches
  and the handler returns \<^verbatim>\<open>nil\<close> with the world unchanged: no call on the client.
\<close>

theorem handleGenericComment_no_command:
  assumes "eligible e"
      and "\<not> hasStandaloneLine ''/merge'' (Body e)"
      and "\<not> hasStandaloneLine ''/merge cancel'' (Body e)"
  shows "\<not> MatchString mergeRe (Body e) \<and> \<not> MatchString mergeCancelRe (Body e) \<and>
         handleGenericComment gc config e w = (None, w) \<and>
         issued w (snd (handleGenericComment gc config e w)) = []"
  using assms handleGenericComment_none [of e gc config w]
  by (simp add: mergeRe_lines mergeCancelRe_lines issued_def)

theorem handleGenericComment_no_command_witness:
  "eligible (commentEvent ''foo /merge bar'') \<and>
   \<not> hasStandaloneLine ''/merge'' ''foo /merge bar'' \<and>
   \<not> hasStandaloneLine ''/merge cancel'' ''foo /merge bar'' \<and>
   handleGenericComment (stubClient ([], None) None None) config0 (commentEvent ''foo /merge bar'') world0
     = (None, world0)"
proof -
  have el: "eligible (commentEvent ''foo /merge bar'')"
    by (simp add: eligible_def commentEvent_def GenericCommentActionCreated_def)
  have n1: "\<not> hasStandaloneLine ''/merge'' (Body (commentEvent ''foo /merge bar''))"
   and n2: "\<not> hasStandaloneLine ''/merge cancel'' (Body (commentEvent ''foo /merge bar''))"
    by (simp_all add: hasStandaloneLine_def standaloneLine_def commentEvent_def newline_def toLower_def)
  from handleGenericComment_no_command [OF el n1 n2, of "stubClient ([], None) None None" config0 world0] el n1 n2
  show ?thesis by (simp add: commentEvent_def)
qed

text \<open>
  C9. \<open>optionsForRepo\<close> returns the first entry of the configuration list whose
  \<open>Repos\<close> contains the org name or the full name "org/repo", and the empty options
  when no entry does. With the list of entries for "orgA" and for "orgB/repoX",
  "orgA/anyrepo" resolves to the first entry and "orgC/repoZ" to the empty options.
\<close>

theorem optionsForRepo_first_match:
  "optionsForRepo config org rp =
     (case find (\<lambda>m. org \<in> set (Repos m) \<or> org @ ''/'' @ rp \<in> set (Repos m)) (ConfigMerge config) of
        Some m \<Rightarrow> m
      | None \<Rightarrow> \<lparr>Repos = []\<rparr>) \<and>
   optionsForRepo (config\<lparr>ConfigMerge := [\<lparr>Repos = [''orgA'']\<rparr>, \<lparr>Repos = [''orgB/repoX'']\<rparr>]\<rparr>) ''orgA'' ''anyrepo''
     = \<lparr>Repos = [''orgA'']\<rparr> \<and>
   optionsForRepo (config\<lparr>ConfigMerge := [\<lparr>Repos = [''orgA'']\<rparr>, \<lparr>Repos = [''orgB/repoX'']\<rparr>]\<rparr>) ''orgC'' ''repoZ''
     = \<lparr>Repos = []\<rparr>"
  by (simp add: optionsForRepo_def optionsLoop_find fullNameOf_def)

theorem optionsForRepo_first_match_witness:
  "optionsForRepo config0 ''orgB'' ''repoX'' = \<lparr>Repos = [''orgB/repoX'']\<rparr> \<and>
   optionsForRepo config0 ''orgA'' ''anyrepo'' = \<lparr>Repos = [''orgA'']\<rparr> \<and>
   optionsForRepo config0 ''orgC'' ''repoZ'' = \<lparr>Repos = []\<rparr>"
  using optionsForRepo_first_match [of config0 "''orgB''" "''repoX''"]
        optionsForRepo_first_match [of config0 "''orgA''" "''anyrepo''"]
        optionsForRepo_first_match [of config0 "''orgC''" "''repoZ''"]
  by (simp add: config0_def)

text \<open>
  C10. One invocation issues at most one label mutation: the calls made before the
  invocation stay as they are, and among the calls it adds, the \<^verbatim>\<open>AddLabel\<close> and
  \<^verbatim>\<open>RemoveLabel\<close> calls together number at most one. This holds for the handler of
  the event and for \<open>handle\<close> alone.
\<close>

theorem at_most_one_label_mutation:
  "take (length (calls w)) (calls (snd (handleGenericComment gc config e w))) = calls w \<and>
   addLabelCalls (issued w (snd (handleGenericComment gc config e w)))
     + removeLabelCalls (issued w (snd (handleGenericComment gc config e w))) \<le> 1 \<and>
   take (length (calls w)) (calls (snd (handle wantMerge config rc gc w))) = calls w \<and>
   addLabelCalls (issued w (snd (handle wantMerge config rc gc w)))
     + removeLabelCalls (issued w (snd (handle wantMerge config rc gc w))) \<le> 1"
proof -
  have "handleGenericComment gc config e w = (None, w)
      \<or> handleGenericComment gc config e w = handle True config (newReviewCtx e) gc w
      \<or> handleGenericComment gc config e w = handle False config (newReviewCtx e) gc w"
    by (simp add: handleGenericComment_def Let_def newReviewCtx_sel)
  then show ?thesis
    using handle_at_most_one [of w True config "newReviewCtx e" gc]
          handle_at_most_one [of w False config "newReviewCtx e" gc]
          handle_at_most_one [of w wantMerge config rc gc]
    by (auto simp: issued_def addLabelCalls_def removeLabelCalls_def)
qed

theorem at_most_one_label_mutation_witness:
  "addLabelCalls (issued world0 (snd (handleGenericComment
      (stubClient ([\<lparr>Name = ''ok-to-merge''\<rparr>], None) None None) config0 (commentEvent ''/merge cancel'') world0)))
   + removeLabelCalls (issued world0 (snd (handleGenericComment
      (stubClient ([\<lparr>Name = ''ok-to-merge''\<rparr>], None) None None) config0 (commentEvent ''/merge cancel'') world0)))
   \<le> 1"
  using at_most_one_label_mutation
    [of world0 "stubClient ([\<lparr>Name = ''ok-to-merge''\<rparr>], None) None None" config0
        "commentEvent ''/merge cancel''" False "newReviewCtx (commentEvent ''/merge cancel'')"]
  by simp

end
